theory Spec2Isabelle
  imports Main "HOL-Library.Word"
begin

text \<open>
  The browser client of the article explorer: the script of the search page (search,
  pagination, adding a favorite, login), the API client both pages share, and the
  script of the favorites page. Each JavaScript function is a function on an
  explicit state of the page; every \<open>fetch\<close> is a request handed out, and the
  response is an input of the part of the handler that runs after the \<open>await\<close>.
\<close>

section \<open>Values of the JavaScript runtime\<close>

text \<open>
  A JavaScript string is a sequence of UTF-16 code units. String literals of the
  source are ASCII (apart from two emoji in the card templates) and are embedded
  with \<open>lit\<close>.
\<close>

type_synonym jsstring = "16 word list"

definition lit :: "string \<Rightarrow> jsstring" where
  "lit cs = map of_char cs"

definition nl :: jsstring where
  "nl = [0x0A]"

text \<open>
  \<open>String.prototype.trim\<close> removes the code units that ECMAScript calls WhiteSpace
  (TAB, VT, FF, ZWNBSP and the Unicode space separators) or LineTerminator
  (LF, CR, LS, PS) from both ends.
\<close>

definition is_whitespace :: "16 word \<Rightarrow> bool" where
  "is_whitespace c \<longleftrightarrow>
     c \<in> {0x09, 0x0A, 0x0B, 0x0C, 0x0D, 0x20, 0xA0, 0x1680,
          0x2028, 0x2029, 0x202F, 0x205F, 0x3000, 0xFEFF}
     \<or> (0x2000 \<le> c \<and> c \<le> 0x200A)"

definition trim :: "jsstring \<Rightarrow> jsstring" where
  "trim s = rev (dropWhile is_whitespace (rev (dropWhile is_whitespace s)))"

text \<open>
  Page numbers and HTTP status codes are JavaScript numbers that hold integers;
  they are modelled as \<open>int\<close> and \<open>nat\<close> (exact for the safe integers of a double).
  \<open>Number_toString\<close> is the conversion a template literal applies to such a
  number: decimal digits, with a leading minus sign for a negative value.
\<close>

fun decimal :: "nat \<Rightarrow> jsstring" where
  "decimal n = (if n < 10 then [of_nat (48 + n)]
                else decimal (n div 10) @ [of_nat (48 + n mod 10)])"

declare decimal.simps [simp del]

definition Number_toString :: "int \<Rightarrow> jsstring" where
  "Number_toString i = (if i < 0 then 0x2D # decimal (nat (- i)) else decimal (nat i))"

text \<open>
  A value of type string-or-null (or string-or-undefined, for a property that may
  be absent from a parsed JSON object) is a \<open>jsstring option\<close>. Such a value is
  truthy when it is a non-empty string.
\<close>

definition truthy :: "jsstring option \<Rightarrow> bool" where
  "truthy v = (case v of None \<Rightarrow> False | Some t \<Rightarrow> t \<noteq> [])"

definition ToString :: "jsstring option \<Rightarrow> jsstring" where
  "ToString v = (case v of None \<Rightarrow> lit ''null'' | Some t \<Rightarrow> t)"

text \<open>
  The exceptions of the program: the \<open>TypeError\<close> of a failed \<open>fetch\<close> or of a method
  call on null, the \<open>SyntaxError\<close> of \<open>response.json()\<close> on a body that is not JSON,
  and \<open>new Error(message)\<close>.
\<close>

datatype js_error = TypeError | SyntaxError | Error jsstring

section \<open>HTTP requests and responses\<close>

datatype http_method = GET | POST | DELETE

text \<open>
  What \<open>fetch\<close> is called with: the resource (here always a URL string) and the
  options. The \<open>body\<close> is the object handed to \<open>JSON.stringify\<close>, as its list of
  properties.
\<close>

record request =
  resource :: jsstring
  method' :: http_method
  headers :: "(jsstring \<times> jsstring) list"
  body :: "(jsstring \<times> jsstring) list option"

text \<open>
  How the awaited \<open>fetch\<close> settles: it rejects when the network fails, otherwise it
  resolves to a response with a status code and a body. The body is given as the
  value \<open>response.json()\<close> parses it to, \<open>None\<close> when it is not JSON.
\<close>

datatype 'b fetch_result = Rejected | Resolved nat "'b option"

definition ok :: "nat \<Rightarrow> bool" where
  "ok st \<longleftrightarrow> 200 \<le> st \<and> st \<le> 299"

definition response_json :: "'b option \<Rightarrow> js_error + 'b" where
  "response_json b = (case b of None \<Rightarrow> Inl SyntaxError | Some d \<Rightarrow> Inr d)"

subsection \<open>The shapes of the parsed bodies\<close>

text \<open>
  The bodies are JSON objects with the properties the source reads and documents.
  The properties the code tests for truthiness (\<open>token\<close>, \<open>message\<close>, \<open>error\<close>) are a
  string or missing: \<open>None\<close> is an absent or null property. The page numbers
  \<open>prev_page\<close> and \<open>next_page\<close> are a number or null, which is what the code compares
  them with. An article has the four properties the card template reads; the
  names \<open>id\<close>, \<open>title\<close>, \<open>abstract\<close> and \<open>url\<close> carry a prime here.
\<close>

record login_body =
  token :: "jsstring option"

record api_body =
  message :: "jsstring option"
  error :: "jsstring option"

record page_info =
  current_page :: int
  prev_page :: "int option"
  next_page :: "int option"

record article =
  id' :: jsstring
  title' :: jsstring
  abstract' :: jsstring
  url' :: jsstring

record search_body =
  articles :: "article list"
  meta :: page_info

record favorite =
  article_id :: jsstring
  article_title :: jsstring
  article_url :: jsstring

section \<open>The state of the page\<close>

text \<open>
  The Bootstrap modal on \<open>#loginModal\<close>: \<open>bootstrap.Modal.getInstance\<close> returns null
  until an instance has been created.
\<close>

datatype modal = NoInstance | Hidden | Shown

text \<open>
  The two globals of the script, \<open>localStorage\<close>, and the parts of the document and
  of the browser that the handlers read or write: the values of the three input
  fields, the markup assigned to \<open>#articles\<close>, the two pagination buttons, the login
  modal, the ids of the elements in the favorites document, the arguments of the
  calls of \<open>alert\<close> and of \<open>console.error\<close> so far. The markup of the two pages is
  not part of the sources: the elements the scripts look up by a fixed id are
  taken to exist, and \<open>localStorage.setItem\<close> to succeed.
\<close>

record app_state =
  currentPage :: int
  jwtToken :: "jsstring option"
  localStorage :: "jsstring \<rightharpoonup> jsstring"
  searchQuery :: jsstring
  loginUsername :: jsstring
  loginPassword :: jsstring
  articles_innerHTML :: jsstring
  prevPageBtn_disabled :: bool
  nextPageBtn_disabled :: bool
  loginModal :: modal
  elements :: "jsstring list"
  alerts :: "jsstring option list"
  console :: "(jsstring \<times> js_error) list"

definition alert :: "jsstring option \<Rightarrow> app_state \<Rightarrow> app_state" where
  "alert msg s = s\<lparr>alerts := alerts s @ [msg]\<rparr>"

definition console_error :: "jsstring \<Rightarrow> js_error \<Rightarrow> app_state \<Rightarrow> app_state" where
  "console_error label e s = s\<lparr>console := console s @ [(label, e)]\<rparr>"

definition getItem :: "jsstring \<Rightarrow> app_state \<Rightarrow> jsstring option" where
  "getItem k s = localStorage s k"

definition setItem :: "jsstring \<Rightarrow> jsstring option \<Rightarrow> app_state \<Rightarrow> app_state" where
  "setItem k v s = s\<lparr>localStorage := (localStorage s)(k \<mapsto> ToString v)\<rparr>"

section \<open>The API client\<close>

definition BASE_URL :: jsstring where
  "BASE_URL = lit ''http://localhost:8085''"

text \<open>
  Each function of the API client is one \<open>fetch\<close> and one \<open>await\<close>. It is modelled
  by the request it issues and, named \<open>_settled\<close>, by what its promise settles to
  once the \<open>fetch\<close> has: \<open>Inl\<close> a rejection, \<open>Inr\<close> the value returned.
\<close>

definition fetchArticles :: "jsstring \<Rightarrow> int option \<Rightarrow> request" where
  "fetchArticles query page =
     (let page = (case page of None \<Rightarrow> 0 | Some p \<Rightarrow> p) in
      \<lparr>resource = BASE_URL @ lit ''/articles/search?q='' @ query @ lit ''&page='' @
                   Number_toString page,
       method' = GET,
       headers = [],
       body = None\<rparr>)"

definition fetchArticles_settled :: "search_body fetch_result \<Rightarrow> js_error + search_body" where
  "fetchArticles_settled res =
     (case res of Rejected \<Rightarrow> Inl TypeError | Resolved st b \<Rightarrow> response_json b)"

definition getAuthHeaders :: "app_state \<Rightarrow> (jsstring \<times> jsstring) list" where
  "getAuthHeaders s =
     (let jwtToken = getItem (lit ''jwtToken'') s in
      [(lit ''Content-Type'', lit ''application/json''),
       (lit ''Authorization'',
        if truthy jwtToken then lit ''Bearer '' @ ToString jwtToken else [])])"

definition addToFavorites :: "favorite \<Rightarrow> app_state \<Rightarrow> request" where
  "addToFavorites article s =
     \<lparr>resource = BASE_URL @ lit ''/favorites'',
      method' = POST,
      headers = getAuthHeaders s,
      body = Some [(lit ''article_id'', article_id article),
                   (lit ''article_title'', article_title article),
                   (lit ''article_url'', article_url article)]\<rparr>"

definition addToFavorites_settled :: "api_body fetch_result \<Rightarrow> js_error + api_body" where
  "addToFavorites_settled res =
     (case res of Rejected \<Rightarrow> Inl TypeError | Resolved st b \<Rightarrow> response_json b)"

definition fetchFavorites :: "app_state \<Rightarrow> request" where
  "fetchFavorites s =
     \<lparr>resource = BASE_URL @ lit ''/favorites'',
      method' = GET,
      headers = getAuthHeaders s,
      body = None\<rparr>"

definition removeFromFavoritesApi :: "jsstring \<Rightarrow> app_state \<Rightarrow> request" where
  "removeFromFavoritesApi articleId s =
     \<lparr>resource = BASE_URL @ lit ''/favorites'',
      method' = DELETE,
      headers = getAuthHeaders s,
      body = Some [(lit ''article_id'', articleId)]\<rparr>"

definition removeFromFavoritesApi_settled :: "api_body fetch_result \<Rightarrow> js_error + api_body" where
  "removeFromFavoritesApi_settled res =
     (case res of Rejected \<Rightarrow> Inl TypeError | Resolved st b \<Rightarrow> response_json b)"

definition loginUser :: "jsstring \<Rightarrow> jsstring \<Rightarrow> request" where
  "loginUser username password =
     \<lparr>resource = BASE_URL @ lit ''/login'',
      method' = POST,
      headers = [(lit ''Content-Type'', lit ''application/json'')],
      body = Some [(lit ''username'', username), (lit ''password'', password)]\<rparr>"

definition loginUser_settled :: "login_body fetch_result \<Rightarrow> js_error + login_body" where
  "loginUser_settled res =
     (case res of
        Rejected \<Rightarrow> Inl TypeError
      | Resolved st b \<Rightarrow>
          if \<not> ok st then Inl (Error (lit ''HTTP error! Status: '' @ decimal st))
          else response_json b)"

section \<open>The handlers of the search page\<close>

text \<open>
  An \<open>async\<close> handler runs up to its \<open>await\<close>, and again from there once the
  request has settled; other handlers may run in between. The part named
  \<open>_begin\<close> returns the state and the request it is waiting for, if any. The part
  named \<open>_resume\<close> takes how the request settled and the state at that moment;
  where the handler has no \<open>try\<close>, it also returns the error its promise rejects
  with, if any.
\<close>

definition article_card :: "article \<Rightarrow> jsstring" where
  "article_card article =
     nl @ lit ''        <div class=\"col-md-4\">'' @
     nl @ lit ''            <div class=\"card mb-3\">'' @
     nl @ lit ''                <div class=\"card-body\">'' @
     nl @ lit ''                    <h5>'' @ title' article @ lit ''</h5>'' @
     nl @ lit ''                    <p>'' @ abstract' article @ lit ''</p>'' @
     nl @ lit ''                    <a href=\"'' @ url' article @
          lit ''\" target=\"_blank\" class=\"btn btn-sm btn-primary\">Read More</a>'' @
     nl @ lit ''                    <button class=\"btn btn-sm btn-success\" onclick='' @
          [0x27] @ lit ''handleFavorite(\"'' @ id' article @ lit ''\", \"'' @ title' article @
          lit ''\", \"'' @ url' article @ lit ''\")'' @ [0x27] @ lit ''>'' @
          [0x2B50] @ lit '' Add To Favorite</button>'' @
     nl @ lit ''                </div>'' @
     nl @ lit ''            </div>'' @
     nl @ lit ''        </div>'' @
     nl @ lit ''    ''"

definition updatePagination :: "page_info \<Rightarrow> app_state \<Rightarrow> app_state" where
  "updatePagination data s =
     s\<lparr>currentPage := current_page data,
       prevPageBtn_disabled := (prev_page data = None),
       nextPageBtn_disabled := (next_page data = None)\<rparr>"

definition searchArticles_begin :: "int option \<Rightarrow> app_state \<Rightarrow> app_state \<times> request option" where
  "searchArticles_begin page s =
     (let page = (case page of None \<Rightarrow> 0 | Some p \<Rightarrow> p);
          query = searchQuery s
      in if trim query = [] then
           (s\<lparr>articles_innerHTML :=
                 lit ''<p class=\"text-danger\">Please enter a search query.</p>''\<rparr>, None)
         else (s, Some (fetchArticles query (Some page))))"

definition searchArticles_resume ::
  "search_body fetch_result \<Rightarrow> app_state \<Rightarrow> app_state \<times> js_error option" where
  "searchArticles_resume res s =
     (case fetchArticles_settled res of
        Inl e \<Rightarrow> (s, Some e)
      | Inr data \<Rightarrow>
          (let s1 = updatePagination (meta data) s
           in (s1\<lparr>articles_innerHTML := concat (map article_card (articles data))\<rparr>, None)))"

definition changePage :: "jsstring \<Rightarrow> app_state \<Rightarrow> app_state \<times> request option" where
  "changePage direction s =
     (if direction = lit ''prev'' then searchArticles_begin (Some (currentPage s - 1)) s
      else searchArticles_begin (Some (currentPage s + 1)) s)"

definition handleFavorite_begin ::
  "jsstring \<Rightarrow> jsstring \<Rightarrow> jsstring \<Rightarrow> app_state \<Rightarrow> app_state \<times> request option" where
  "handleFavorite_begin articleId title url s =
     (if \<not> truthy (jwtToken s) then (s\<lparr>loginModal := Shown\<rparr>, None)
      else (s, Some (addToFavorites
                       \<lparr>article_id = articleId, article_title = title, article_url = url\<rparr> s)))"

definition handleFavorite_resume ::
  "api_body fetch_result \<Rightarrow> app_state \<Rightarrow> app_state \<times> js_error option" where
  "handleFavorite_resume res s =
     (case addToFavorites_settled res of
        Inl e \<Rightarrow> (s, Some e)
      | Inr data \<Rightarrow>
          (if truthy (message data) then alert (message data) s
           else if truthy (error data) then alert (error data) s
           else alert (Some (lit ''Error, Please try again.'')) s,
           None))"

definition login_begin :: "app_state \<Rightarrow> app_state \<times> request option" where
  "login_begin s =
     (let username = loginUsername s; password = loginPassword s
      in (s, Some (loginUser username password)))"

definition login_catch :: "js_error \<Rightarrow> app_state \<Rightarrow> app_state" where
  "login_catch e s =
     alert (Some (lit ''An error occurred. Please try again.''))
       (console_error (lit ''Login error:'') e s)"

definition login_resume :: "login_body fetch_result \<Rightarrow> app_state \<Rightarrow> app_state" where
  "login_resume res s =
     (case loginUser_settled res of
        Inl e \<Rightarrow> login_catch e s
      | Inr data \<Rightarrow>
          if truthy (token data) then
            (let s1 = s\<lparr>jwtToken := token data\<rparr>;
                 s2 = setItem (lit ''jwtToken'') (jwtToken s1) s1;
                 s3 = alert (Some (lit ''Login successful!'')) s2
             in if loginModal s3 = NoInstance then login_catch TypeError s3
                else s3\<lparr>loginModal := Hidden\<rparr>)
          else alert (Some (lit ''Login failed. Please try again.'')) s)"

text \<open>
  The statements at the top of the script, run when the page is loaded.
\<close>

definition script_init :: "app_state \<Rightarrow> app_state" where
  "script_init s =
     s\<lparr>currentPage := 0,
       jwtToken := (let v = getItem (lit ''jwtToken'') s in if truthy v then v else None)\<rparr>"

text \<open>
  A reload gives a new document \<open>page\<close>; only \<open>localStorage\<close> survives it.
\<close>

definition reload :: "app_state \<Rightarrow> app_state \<Rightarrow> app_state" where
  "reload page s = script_init (page\<lparr>localStorage := localStorage s\<rparr>)"

section \<open>The handlers of the favorites page\<close>

text \<open>
  Of \<open>loadFavorites\<close> only the request is modelled, not the rendering of the list
  once it has arrived.
\<close>

definition loadFavorites_begin :: "app_state \<Rightarrow> app_state \<times> request option" where
  "loadFavorites_begin s = (s, Some (fetchFavorites s))"

definition removeFromFavorites_begin :: "jsstring \<Rightarrow> app_state \<Rightarrow> app_state \<times> request option" where
  "removeFromFavorites_begin ident s = (s, Some (removeFromFavoritesApi ident s))"

text \<open>
  \<open>document.getElementById\<close> finds the first element with the id, and
  \<open>element.remove()\<close> takes that element out of the document.
\<close>

definition removeFromFavorites_resume ::
  "jsstring \<Rightarrow> api_body fetch_result \<Rightarrow> app_state \<Rightarrow> app_state \<times> js_error option" where
  "removeFromFavorites_resume ident res s =
     (case removeFromFavoritesApi_settled res of
        Inl e \<Rightarrow> (s, Some e)
      | Inr data \<Rightarrow>
          (if truthy (message data) then
             (let s1 = alert (message data) s
              in if ident \<in> set (elements s1) then s1\<lparr>elements := remove1 ident (elements s1)\<rparr>
                 else s1)
           else if truthy (error data) then alert (error data) s
           else alert (Some (lit ''Error, Please try again.'')) s,
           None))"

section \<open>The page as an event loop\<close>

text \<open>
  The browser runs one handler part at a time, in any order: the user edits an
  input field or triggers a handler, or a pending request settles and the handler
  that awaits it resumes.
\<close>

datatype event =
    Edit_searchQuery jsstring
  | Edit_loginUsername jsstring
  | Edit_loginPassword jsstring
  | Call_searchArticles "int option"
  | Call_changePage jsstring
  | Settle_searchArticles "search_body fetch_result"
  | Call_handleFavorite jsstring jsstring jsstring
  | Settle_handleFavorite "api_body fetch_result"
  | Call_login
  | Settle_login "login_body fetch_result"
  | Call_removeFromFavorites jsstring
  | Settle_removeFromFavorites jsstring "api_body fetch_result"

fun step :: "event \<Rightarrow> app_state \<Rightarrow> app_state" where
  "step (Edit_searchQuery q) s = s\<lparr>searchQuery := q\<rparr>"
| "step (Edit_loginUsername u) s = s\<lparr>loginUsername := u\<rparr>"
| "step (Edit_loginPassword p) s = s\<lparr>loginPassword := p\<rparr>"
| "step (Call_searchArticles page) s = fst (searchArticles_begin page s)"
| "step (Call_changePage direction) s = fst (changePage direction s)"
| "step (Settle_searchArticles res) s = fst (searchArticles_resume res s)"
| "step (Call_handleFavorite articleId title url) s =
     fst (handleFavorite_begin articleId title url s)"
| "step (Settle_handleFavorite res) s = fst (handleFavorite_resume res s)"
| "step Call_login s = fst (login_begin s)"
| "step (Settle_login res) s = login_resume res s"
| "step (Call_removeFromFavorites ident) s = fst (removeFromFavorites_begin ident s)"
| "step (Settle_removeFromFavorites ident res) s = fst (removeFromFavorites_resume ident res s)"

fun run :: "event list \<Rightarrow> app_state \<Rightarrow> app_state" where
  "run [] s = s"
| "run (e # es) s = run es (step e s)"

text \<open>
  The \<open>current_page\<close> of the last page information received in a list of events,
  \<open>p\<close> if there is none.
\<close>

fun last_current_page :: "event list \<Rightarrow> int \<Rightarrow> int" where
  "last_current_page [] p = p"
| "last_current_page (Settle_searchArticles (Resolved st (Some d)) # es) p =
     last_current_page es (current_page (meta d))"
| "last_current_page (e # es) p = last_current_page es p"

text \<open>
  The token held by the script agrees with the persisted one: it is the stored
  string when that is non-empty, and null otherwise.
\<close>

definition session_synced :: "app_state \<Rightarrow> bool" where
  "session_synced s \<longleftrightarrow>
     jwtToken s = (let v = getItem (lit ''jwtToken'') s in if truthy v then v else None)"

text \<open>
  A document with empty fields and empty storage, for concrete runs.
\<close>

definition empty_document :: app_state where
  "empty_document =
     \<lparr>currentPage = 0, jwtToken = None, localStorage = Map.empty, searchQuery = [],
      loginUsername = [], loginPassword = [], articles_innerHTML = [],
      prevPageBtn_disabled = False, nextPageBtn_disabled = False, loginModal = NoInstance,
      elements = [], alerts = [], console = []\<rparr>"

text \<open>
  A successful search response without articles, with the given page information.
\<close>

definition climate_page :: "int \<Rightarrow> int option \<Rightarrow> int option \<Rightarrow> search_body fetch_result" where
  "climate_page cur prv nxt =
     Resolved 200 (Some \<lparr>articles = [], meta = \<lparr>current_page = cur, prev_page = prv, next_page = nxt\<rparr>\<rparr>)"

text \<open>
  Responses with a JSON object as body: of the login, with its \<open>token\<close>, and of a
  change to the favorites, with its \<open>message\<close> and \<open>error\<close>.
\<close>

definition login_response :: "nat \<Rightarrow> jsstring option \<Rightarrow> login_body fetch_result" where
  "login_response st tok = Resolved st (Some \<lparr>token = tok\<rparr>)"


section \<open>Facts about the runtime functions\<close>

lemma trim_eq_Nil_iff: "trim q = [] \<longleftrightarrow> (\<forall>c\<in>set q. is_whitespace c)"
proof
  assume "trim q = []"
  then have "dropWhile is_whitespace (rev (dropWhile is_whitespace q)) = []"
    by (simp add: trim_def)
  then have all: "\<forall>c\<in>set (dropWhile is_whitespace q). is_whitespace c"
    by simp
  show "\<forall>c\<in>set q. is_whitespace c"
  proof (cases "dropWhile is_whitespace q")
    case Nil
    then show ?thesis by simp
  next
    case (Cons c cs)
    then have "\<not> is_whitespace c"
      by (metis hd_dropWhile list.sel(1) list.distinct(1))
    moreover have "is_whitespace c"
      using all Cons by simp
    ultimately show ?thesis by simp
  qed
next
  assume "\<forall>c\<in>set q. is_whitespace c"
  then have "dropWhile is_whitespace q = []"
    by (simp only: dropWhile_eq_Nil_conv)
  then show "trim q = []"
    by (simp add: trim_def del: dropWhile_eq_Nil_conv)
qed

lemma next_not_prev: "lit ''next'' \<noteq> lit ''prev''"
  by (simp add: lit_def)

lemma Number_toString_minus_one: "Number_toString (- 1) = lit ''-1''"
  by (simp add: Number_toString_def decimal.simps lit_def)

lemma trim_climate: "trim (lit ''climate'') \<noteq> []"
  by (simp add: trim_def lit_def is_whitespace_def)

subsection \<open>What each handler leaves unchanged\<close>

lemma alert_fields [simp]:
  "currentPage (alert m s) = currentPage s"
  "jwtToken (alert m s) = jwtToken s"
  "localStorage (alert m s) = localStorage s"
  "elements (alert m s) = elements s"
  "loginModal (alert m s) = loginModal s"
  "console (alert m s) = console s"
  "alerts (alert m s) = alerts s @ [m]"
  by (simp_all add: alert_def)

lemma console_error_fields [simp]:
  "currentPage (console_error l e s) = currentPage s"
  "jwtToken (console_error l e s) = jwtToken s"
  "localStorage (console_error l e s) = localStorage s"
  "elements (console_error l e s) = elements s"
  "loginModal (console_error l e s) = loginModal s"
  "alerts (console_error l e s) = alerts s"
  "console (console_error l e s) = console s @ [(l, e)]"
  by (simp_all add: console_error_def)

lemma login_catch_fields [simp]:
  "currentPage (login_catch e s) = currentPage s"
  "jwtToken (login_catch e s) = jwtToken s"
  "localStorage (login_catch e s) = localStorage s"
  "elements (login_catch e s) = elements s"
  by (simp_all add: login_catch_def)

lemma setItem_fields [simp]:
  "currentPage (setItem k v s) = currentPage s"
  "jwtToken (setItem k v s) = jwtToken s"
  "localStorage (setItem k v s) = (localStorage s)(k \<mapsto> ToString v)"
  "loginModal (setItem k v s) = loginModal s"
  by (simp_all add: setItem_def)

lemma searchArticles_begin_fields [simp]:
  "currentPage (fst (searchArticles_begin page s)) = currentPage s"
  "jwtToken (fst (searchArticles_begin page s)) = jwtToken s"
  "localStorage (fst (searchArticles_begin page s)) = localStorage s"
  by (simp_all add: searchArticles_begin_def Let_def)

lemma changePage_fields [simp]:
  "currentPage (fst (changePage direction s)) = currentPage s"
  "jwtToken (fst (changePage direction s)) = jwtToken s"
  "localStorage (fst (changePage direction s)) = localStorage s"
  by (simp_all add: changePage_def)

lemma searchArticles_resume_session [simp]:
  "jwtToken (fst (searchArticles_resume res s)) = jwtToken s"
  "localStorage (fst (searchArticles_resume res s)) = localStorage s"
  by (simp_all add: searchArticles_resume_def updatePagination_def Let_def split: sum.split)

lemma handleFavorite_begin_fields [simp]:
  "currentPage (fst (handleFavorite_begin a t u s)) = currentPage s"
  "jwtToken (fst (handleFavorite_begin a t u s)) = jwtToken s"
  "localStorage (fst (handleFavorite_begin a t u s)) = localStorage s"
  by (simp_all add: handleFavorite_begin_def)

lemma handleFavorite_resume_fields [simp]:
  "currentPage (fst (handleFavorite_resume res s)) = currentPage s"
  "jwtToken (fst (handleFavorite_resume res s)) = jwtToken s"
  "localStorage (fst (handleFavorite_resume res s)) = localStorage s"
  "elements (fst (handleFavorite_resume res s)) = elements s"
  by (simp_all add: handleFavorite_resume_def split: sum.split)

lemma removeFromFavorites_resume_fields [simp]:
  "currentPage (fst (removeFromFavorites_resume i res s)) = currentPage s"
  "jwtToken (fst (removeFromFavorites_resume i res s)) = jwtToken s"
  "localStorage (fst (removeFromFavorites_resume i res s)) = localStorage s"
  by (simp_all add: removeFromFavorites_resume_def Let_def split: sum.split)

lemma login_resume_currentPage [simp]:
  "currentPage (login_resume res s) = currentPage s"
  by (simp add: login_resume_def Let_def split: sum.split)

subsection \<open>The script's token agrees with the persisted one\<close>

lemma session_synced_script_init: "session_synced (script_init s)"
  by (simp add: session_synced_def script_init_def getItem_def Let_def)

lemma session_synced_cong:
  "jwtToken s' = jwtToken s \<Longrightarrow> localStorage s' = localStorage s \<Longrightarrow>
   session_synced s \<Longrightarrow> session_synced s'"
  by (simp add: session_synced_def getItem_def)

lemma session_synced_login_resume:
  "session_synced s \<Longrightarrow> session_synced (login_resume res s)"
proof (cases "loginUser_settled res")
  case (Inl e)
  assume "session_synced s"
  then show ?thesis
    using Inl by (auto simp: login_resume_def intro: session_synced_cong)
next
  case (Inr data)
  assume synced: "session_synced s"
  show ?thesis
  proof (cases "truthy (token data)")
    case True
    then obtain t where t: "token data = Some t" "t \<noteq> []"
      by (auto simp: truthy_def split: option.splits)
    then show ?thesis
      using Inr by (simp add: login_resume_def Let_def session_synced_def getItem_def
          truthy_def ToString_def)
  next
    case False
    then show ?thesis
      using Inr synced by (auto simp: login_resume_def intro: session_synced_cong)
  qed
qed

lemma session_synced_step: "session_synced s \<Longrightarrow> session_synced (step e s)"
proof (cases e)
  case (Settle_login res)
  assume "session_synced s"
  with Settle_login show ?thesis
    by (simp add: session_synced_login_resume)
qed (auto simp: login_begin_def removeFromFavorites_begin_def Let_def
      intro: session_synced_cong [of _ s])

lemma session_synced_run: "session_synced s \<Longrightarrow> session_synced (run evs s)"
  by (induction evs arbitrary: s) (simp_all add: session_synced_step)

subsection \<open>The current page is the last one received\<close>

lemma last_current_page_Cons:
  "last_current_page (e # es) p = last_current_page es (last_current_page [e] p)"
  by (cases "(e # es, p)" rule: last_current_page.cases) auto

lemma currentPage_step: "currentPage (step e s) = last_current_page [e] (currentPage s)"
proof (cases e)
  case (Settle_searchArticles res)
  show ?thesis
  proof (cases res)
    case Rejected
    with Settle_searchArticles show ?thesis
      by (simp add: searchArticles_resume_def fetchArticles_settled_def)
  next
    case (Resolved st b)
    with Settle_searchArticles show ?thesis
      by (cases b)
        (simp_all add: searchArticles_resume_def fetchArticles_settled_def response_json_def
          updatePagination_def)
  qed
qed (simp_all add: login_begin_def removeFromFavorites_begin_def Let_def)

lemma currentPage_run: "currentPage (run evs s) = last_current_page evs (currentPage s)"
proof (induction evs arbitrary: s)
  case Nil
  show ?case by simp
next
  case (Cons e es)
  have "currentPage (run (e # es) s) = last_current_page es (currentPage (step e s))"
    using Cons.IH by simp
  also have "\<dots> = last_current_page (e # es) (currentPage s)"
    by (simp add: currentPage_step last_current_page_Cons [of e es])
  finally show ?case .
qed

lemma jwtToken_reload: "session_synced s \<Longrightarrow> jwtToken (reload page s) = jwtToken s"
  by (simp add: reload_def script_init_def session_synced_def getItem_def Let_def)

subsection \<open>The outcomes of a login and of a removal\<close>

lemma login_resume_not_ok:
  "\<not> ok st \<Longrightarrow>
   login_resume (Resolved st b) s =
     login_catch (Error (lit ''HTTP error! Status: '' @ decimal st)) s"
  by (simp add: login_resume_def loginUser_settled_def)

lemma login_resume_no_token:
  "ok st \<Longrightarrow> \<not> truthy (token d) \<Longrightarrow>
   login_resume (Resolved st (Some d)) s = alert (Some (lit ''Login failed. Please try again.'')) s"
  by (simp add: login_resume_def loginUser_settled_def response_json_def)

lemma login_resume_stores_only_received_token:
  assumes "jwtToken (login_resume res s) \<noteq> jwtToken s \<or>
           localStorage (login_resume res s) \<noteq> localStorage s"
  shows "\<exists>st d. res = Resolved st (Some d) \<and> ok st \<and> truthy (token d) \<and>
           jwtToken (login_resume res s) = token d"
proof (cases res)
  case Rejected
  with assms show ?thesis
    by (simp add: login_resume_def loginUser_settled_def)
next
  case (Resolved st b)
  show ?thesis
  proof (cases "ok st")
    case False
    with assms Resolved show ?thesis
      by (simp add: login_resume_not_ok)
  next
    case True
    show ?thesis
    proof (cases b)
      case None
      with assms Resolved True show ?thesis
        by (simp add: login_resume_def loginUser_settled_def response_json_def)
    next
      case (Some d)
      show ?thesis
      proof (cases "truthy (token d)")
        case False
        with assms Resolved True Some show ?thesis
          by (simp add: login_resume_no_token)
      next
        case tok: True
        have "jwtToken (login_resume res s) = token d"
          using Resolved True Some tok
          by (simp add: login_resume_def loginUser_settled_def response_json_def Let_def)
        with Resolved True Some tok show ?thesis
          by simp
      qed
    qed
  qed
qed



section \<open>Pagination\<close>

text \<open>
  C3. For every page information \<open>data\<close>, \<open>updatePagination\<close> sets \<open>currentPage\<close> to
  its \<open>current_page\<close>, disables the "previous" button exactly when its \<open>prev_page\<close> is
  null and the "next" button exactly when its \<open>next_page\<close> is null; and this is the
  update a search performs with the \<open>meta\<close> of every body it receives.
\<close>

theorem updatePagination_page_and_controls:
  "currentPage (updatePagination data s) = current_page data \<and>
   (prevPageBtn_disabled (updatePagination data s) \<longleftrightarrow> prev_page data = None) \<and>
   (nextPageBtn_disabled (updatePagination data s) \<longleftrightarrow> next_page data = None) \<and>
   fst (searchArticles_resume (Resolved st (Some d)) s) =
     (updatePagination (meta d) s)
       \<lparr>articles_innerHTML := concat (map article_card (articles d))\<rparr>"
  by (simp add: updatePagination_def searchArticles_resume_def fetchArticles_settled_def
      response_json_def)

theorem updatePagination_page_and_controls_witness:
  "currentPage (updatePagination \<lparr>current_page = 0, prev_page = None, next_page = Some 1\<rparr>
      empty_document) = 0 \<and>
   prevPageBtn_disabled (updatePagination \<lparr>current_page = 0, prev_page = None, next_page = Some 1\<rparr>
      empty_document) \<and>
   \<not> nextPageBtn_disabled (updatePagination \<lparr>current_page = 0, prev_page = None, next_page = Some 1\<rparr>
      empty_document)"
  using updatePagination_page_and_controls
    [of "\<lparr>current_page = 0, prev_page = None, next_page = Some 1\<rparr>" empty_document]
  by simp

text \<open>
  C4. \<open>changePage\<close> with direction \<open>prev\<close> calls the search for \<open>currentPage - 1\<close> and with
  direction \<open>next\<close> for \<open>currentPage + 1\<close>. Nothing is clamped: when the query field
  is not blank, the request asks for exactly that page, so that from
  \<open>currentPage = 0\<close> a \<open>prev\<close> navigation requests page \<open>-1\<close>.
\<close>

theorem changePage_requests_adjacent_page:
  "changePage (lit ''prev'') s = searchArticles_begin (Some (currentPage s - 1)) s \<and>
   changePage (lit ''next'') s = searchArticles_begin (Some (currentPage s + 1)) s \<and>
   (trim (searchQuery s) \<noteq> [] \<longrightarrow>
      changePage (lit ''prev'') s =
        (s, Some (fetchArticles (searchQuery s) (Some (currentPage s - 1)))) \<and>
      changePage (lit ''next'') s =
        (s, Some (fetchArticles (searchQuery s) (Some (currentPage s + 1))))) \<and>
   (trim (searchQuery s) \<noteq> [] \<and> currentPage s = 0 \<longrightarrow>
      map_option resource (snd (changePage (lit ''prev'') s)) =
        Some (BASE_URL @ lit ''/articles/search?q='' @ searchQuery s @ lit ''&page=-1''))"
  by (simp add: changePage_def next_not_prev searchArticles_begin_def fetchArticles_def
      Number_toString_minus_one lit_def)

theorem changePage_requests_adjacent_page_witness:
  "trim (searchQuery (empty_document\<lparr>searchQuery := lit ''climate''\<rparr>)) \<noteq> [] \<and>
   currentPage (empty_document\<lparr>searchQuery := lit ''climate''\<rparr>) = 0 \<and>
   map_option resource
     (snd (changePage (lit ''prev'') (empty_document\<lparr>searchQuery := lit ''climate''\<rparr>))) =
     Some (lit ''http://localhost:8085/articles/search?q=climate&page=-1'')"
proof -
  let ?s = "empty_document\<lparr>searchQuery := lit ''climate''\<rparr>"
  have q: "trim (searchQuery ?s) \<noteq> []"
    by (simp add: trim_climate)
  have p: "currentPage ?s = 0"
    by (simp add: empty_document_def)
  have "map_option resource (snd (changePage (lit ''prev'') ?s)) =
          Some (BASE_URL @ lit ''/articles/search?q='' @ searchQuery ?s @ lit ''&page=-1'')"
    using changePage_requests_adjacent_page [of ?s] q p by blast
  moreover have "BASE_URL @ lit ''/articles/search?q='' @ searchQuery ?s @ lit ''&page=-1'' =
          lit ''http://localhost:8085/articles/search?q=climate&page=-1''"
    by (simp add: BASE_URL_def lit_def)
  ultimately show ?thesis
    using q p by simp
qed

section \<open>Validation of the query\<close>

text \<open>
  C6. When the query field is empty or holds only whitespace (every code unit is
  one that \<open>trim\<close> removes), a search assigns the validation message to \<open>#articles\<close>
  and issues no request. Conversely, whenever a search or a page change issues a
  request, the query is not empty after trimming: it has a code unit that is not
  whitespace.
\<close>

theorem blank_query_is_rejected_locally:
  "((\<forall>c\<in>set (searchQuery s). is_whitespace c) \<longrightarrow>
      searchArticles_begin page s =
        (s\<lparr>articles_innerHTML :=
             lit ''<p class=\"text-danger\">Please enter a search query.</p>''\<rparr>, None)) \<and>
   (snd (searchArticles_begin page s) \<noteq> None \<longrightarrow>
      trim (searchQuery s) \<noteq> [] \<and> (\<exists>c\<in>set (searchQuery s). \<not> is_whitespace c)) \<and>
   (snd (changePage direction s) \<noteq> None \<longrightarrow>
      trim (searchQuery s) \<noteq> [] \<and> (\<exists>c\<in>set (searchQuery s). \<not> is_whitespace c))"
proof -
  have blank: "searchArticles_begin p s =
      (s\<lparr>articles_innerHTML :=
           lit ''<p class=\"text-danger\">Please enter a search query.</p>''\<rparr>, None)"
    if "trim (searchQuery s) = []" for p
    using that by (simp add: searchArticles_begin_def)
  have issued: "trim (searchQuery s) \<noteq> []"
    if "snd (searchArticles_begin p s) \<noteq> None" for p
    using that blank [of p] by auto
  have some: "\<exists>c\<in>set (searchQuery s). \<not> is_whitespace c"
    if "trim (searchQuery s) \<noteq> []"
    using that by (simp add: trim_eq_Nil_iff)
  show ?thesis
    using blank [of page] issued [of page] some
      issued [of "Some (currentPage s - 1)"] issued [of "Some (currentPage s + 1)"]
    by (auto simp: trim_eq_Nil_iff changePage_def split: if_splits)
qed

theorem blank_query_is_rejected_locally_witness:
  "snd (searchArticles_begin None (empty_document\<lparr>searchQuery := [0x20, 0x09, 0xA0, 0x2003]\<rparr>)) = None \<and>
   articles_innerHTML (fst (searchArticles_begin None
      (empty_document\<lparr>searchQuery := [0x20, 0x09, 0xA0, 0x2003]\<rparr>))) =
     lit ''<p class=\"text-danger\">Please enter a search query.</p>'' \<and>
   snd (searchArticles_begin None (empty_document\<lparr>searchQuery := lit ''climate''\<rparr>)) \<noteq> None \<and>
   snd (changePage (lit ''next'') (empty_document\<lparr>searchQuery := lit ''climate''\<rparr>)) \<noteq> None \<and>
   trim (searchQuery (empty_document\<lparr>searchQuery := lit ''climate''\<rparr>)) \<noteq> []"
proof -
  let ?blank = "empty_document\<lparr>searchQuery := [0x20, 0x09, 0xA0, 0x2003]\<rparr>"
  let ?climate = "empty_document\<lparr>searchQuery := lit ''climate''\<rparr>"
  have ws: "\<forall>c\<in>set (searchQuery ?blank). is_whitespace c"
    by (simp add: is_whitespace_def)
  have "searchArticles_begin None ?blank =
      (?blank\<lparr>articles_innerHTML :=
           lit ''<p class=\"text-danger\">Please enter a search query.</p>''\<rparr>, None)"
    using blank_query_is_rejected_locally [of ?blank None] ws by blast
  then have blank: "snd (searchArticles_begin None ?blank) = None"
      "articles_innerHTML (fst (searchArticles_begin None ?blank)) =
         lit ''<p class=\"text-danger\">Please enter a search query.</p>''"
    by simp_all
  have issued: "snd (searchArticles_begin None ?climate) \<noteq> None"
      "snd (changePage (lit ''next'') ?climate) \<noteq> None"
    by (simp_all add: changePage_def searchArticles_begin_def trim_climate Let_def)
  then have "trim (searchQuery ?climate) \<noteq> []"
    using blank_query_is_rejected_locally [of ?climate None "lit ''next''"] by blast
  with blank issued show ?thesis
    by simp
qed

section \<open>Search requests and the current page\<close>

text \<open>
  C2. The claim speaks of every non-empty query. A query of whitespace only is
  not empty, and a search with it issues no request (the counterexample below),
  so the first part is amended to the queries that are non-empty after trimming:
  a search with such a query issues exactly one request, the one built by
  \<open>fetchArticles\<close>, and leaves the whole state, \<open>currentPage\<close> included, as it was; a
  page change does not assign \<open>currentPage\<close> either. When the response arrives,
  \<open>currentPage\<close> becomes the \<open>current_page\<close> of the page information in it, and it is
  unchanged when the request fails or the body is not JSON. Hence after any
  events since the page was loaded, \<open>currentPage\<close> is the \<open>current_page\<close> of the last
  page information received, and the initial 0 if none was.
\<close>

theorem search_issues_one_request_and_keeps_page:
  "(trim (searchQuery s) \<noteq> [] \<longrightarrow>
      searchArticles_begin page s =
        (s, Some (fetchArticles (searchQuery s)
                    (Some (case page of None \<Rightarrow> 0 | Some p \<Rightarrow> p))))) \<and>
   currentPage (fst (searchArticles_begin page s)) = currentPage s \<and>
   currentPage (fst (changePage direction s)) = currentPage s \<and>
   currentPage (fst (searchArticles_resume (Resolved st (Some d)) s)) = current_page (meta d) \<and>
   currentPage (fst (searchArticles_resume (Resolved st None) s)) = currentPage s \<and>
   currentPage (fst (searchArticles_resume Rejected s)) = currentPage s \<and>
   currentPage (run evs (script_init s)) = last_current_page evs 0"
proof -
  have "searchArticles_begin page s =
      (s, Some (fetchArticles (searchQuery s)
                  (Some (case page of None \<Rightarrow> 0 | Some p \<Rightarrow> p))))"
    if "trim (searchQuery s) \<noteq> []"
    using that by (simp add: searchArticles_begin_def)
  moreover have "currentPage (fst (searchArticles_resume (Resolved st (Some d)) s)) =
      current_page (meta d)"
    using currentPage_step [of "Settle_searchArticles (Resolved st (Some d))" s] by simp
  moreover have "currentPage (fst (searchArticles_resume (Resolved st None) s)) = currentPage s"
    using currentPage_step [of "Settle_searchArticles (Resolved st None)" s] by simp
  moreover have "currentPage (fst (searchArticles_resume Rejected s)) = currentPage s"
    using currentPage_step [of "Settle_searchArticles Rejected" s] by simp
  moreover have "currentPage (run evs (script_init s)) = last_current_page evs 0"
    by (simp add: currentPage_run script_init_def)
  ultimately show ?thesis
    by simp
qed

theorem search_issues_one_request_and_keeps_page_witness:
  "trim (searchQuery (empty_document\<lparr>searchQuery := lit ''climate''\<rparr>)) \<noteq> [] \<and>
   searchArticles_begin None (empty_document\<lparr>searchQuery := lit ''climate''\<rparr>) =
     (empty_document\<lparr>searchQuery := lit ''climate''\<rparr>,
      Some (fetchArticles (lit ''climate'') (Some 0))) \<and>
   currentPage (run [Edit_searchQuery (lit ''climate''), Call_searchArticles None,
                     Settle_searchArticles (climate_page 0 None (Some 1)),
                     Call_changePage (lit ''next'')]
                  (script_init empty_document)) = 0 \<and>
   currentPage (run [Edit_searchQuery (lit ''climate''), Call_searchArticles None,
                     Settle_searchArticles (climate_page 0 None (Some 1)),
                     Call_changePage (lit ''next''),
                     Settle_searchArticles (climate_page 1 (Some 0) None)]
                  (script_init empty_document)) = 1"
proof -
  let ?s = "empty_document\<lparr>searchQuery := lit ''climate''\<rparr>"
  have q: "trim (searchQuery ?s) \<noteq> []"
    by (simp add: trim_climate)
  have "searchArticles_begin None ?s = (?s, Some (fetchArticles (lit ''climate'') (Some 0)))"
    using search_issues_one_request_and_keeps_page [of ?s None] q by simp
  moreover have "currentPage (run [Edit_searchQuery (lit ''climate''), Call_searchArticles None,
                     Settle_searchArticles (climate_page 0 None (Some 1)),
                     Call_changePage (lit ''next'')]
                  (script_init empty_document)) = 0"
    using search_issues_one_request_and_keeps_page [of empty_document None _ _ _
        "[Edit_searchQuery (lit ''climate''), Call_searchArticles None,
          Settle_searchArticles (climate_page 0 None (Some 1)),
          Call_changePage (lit ''next'')]"]
    by (simp add: climate_page_def)
  moreover have "currentPage (run [Edit_searchQuery (lit ''climate''), Call_searchArticles None,
                     Settle_searchArticles (climate_page 0 None (Some 1)),
                     Call_changePage (lit ''next''),
                     Settle_searchArticles (climate_page 1 (Some 0) None)]
                  (script_init empty_document)) = 1"
    using search_issues_one_request_and_keeps_page [of empty_document None _ _ _
        "[Edit_searchQuery (lit ''climate''), Call_searchArticles None,
          Settle_searchArticles (climate_page 0 None (Some 1)),
          Call_changePage (lit ''next''),
          Settle_searchArticles (climate_page 1 (Some 0) None)]"]
    by (simp add: climate_page_def)
  ultimately show ?thesis
    using q by simp
qed

text \<open>
  A query of one space is a non-empty string, and a search with it issues no
  request.
\<close>

theorem blank_nonempty_query_counterexample:
  "searchQuery (empty_document\<lparr>searchQuery := [0x20]\<rparr>) \<noteq> [] \<and>
   snd (searchArticles_begin None (empty_document\<lparr>searchQuery := [0x20]\<rparr>)) = None"
  by (simp add: searchArticles_begin_def trim_def is_whitespace_def Let_def)

text \<open>
  C10. The URL of a search request is \<open>BASE_URL\<close>, \<open>/articles/search?q=\<close>, the query,
  \<open>&page=\<close> and the decimal page number, concatenated: the query is embedded as it
  is, with no encoding of \<open>&\<close>, \<open>=\<close>, \<open>#\<close> or spaces.
\<close>

theorem search_url_is_plain_interpolation:
  "resource (fetchArticles query (Some page)) =
     BASE_URL @ lit ''/articles/search?q='' @ query @ lit ''&page='' @ Number_toString page \<and>
   resource (fetchArticles query None) =
     BASE_URL @ lit ''/articles/search?q='' @ query @ lit ''&page=0'' \<and>
   BASE_URL = lit ''http://localhost:8085'' \<and>
   (trim (searchQuery s) \<noteq> [] \<longrightarrow>
      map_option resource (snd (searchArticles_begin (Some page) s)) =
        Some (BASE_URL @ lit ''/articles/search?q='' @ searchQuery s @ lit ''&page='' @
              Number_toString page))"
  by (simp add: fetchArticles_def searchArticles_begin_def BASE_URL_def Number_toString_def
      decimal.simps lit_def)

theorem search_url_is_plain_interpolation_witness:
  "trim (searchQuery (empty_document\<lparr>searchQuery := lit ''a&b=c #d''\<rparr>)) \<noteq> [] \<and>
   map_option resource
     (snd (searchArticles_begin (Some 12) (empty_document\<lparr>searchQuery := lit ''a&b=c #d''\<rparr>))) =
     Some (lit ''http://localhost:8085/articles/search?q=a&b=c #d&page=12'')"
proof -
  let ?s = "empty_document\<lparr>searchQuery := lit ''a&b=c #d''\<rparr>"
  have q: "trim (searchQuery ?s) \<noteq> []"
    by (simp add: trim_def lit_def is_whitespace_def)
  then have "map_option resource (snd (searchArticles_begin (Some 12) ?s)) =
      Some (BASE_URL @ lit ''/articles/search?q='' @ searchQuery ?s @ lit ''&page='' @
            Number_toString 12)"
    using search_url_is_plain_interpolation [of _ 12 ?s] by blast
  moreover have "BASE_URL @ lit ''/articles/search?q='' @ searchQuery ?s @ lit ''&page='' @
      Number_toString 12 = lit ''http://localhost:8085/articles/search?q=a&b=c #d&page=12''"
    by (simp add: BASE_URL_def Number_toString_def decimal.simps lit_def)
  ultimately show ?thesis
    using q by simp
qed

section \<open>Favorites\<close>

text \<open>
  C7. When the script holds no token (\<open>jwtToken\<close> is null, or empty), adding a
  favorite shows the login modal and issues no request; the request to add a
  favorite is issued only when a token is held.
\<close>

theorem favorite_without_token_prompts_login:
  "(\<not> truthy (jwtToken s) \<longrightarrow>
      handleFavorite_begin articleId title url s = (s\<lparr>loginModal := Shown\<rparr>, None)) \<and>
   (snd (handleFavorite_begin articleId title url s) \<noteq> None \<longrightarrow>
      truthy (jwtToken s) \<and>
      handleFavorite_begin articleId title url s =
        (s, Some (addToFavorites
                    \<lparr>article_id = articleId, article_title = title, article_url = url\<rparr> s)))"
  by (simp add: handleFavorite_begin_def)

theorem favorite_without_token_prompts_login_witness:
  "\<not> truthy (jwtToken (script_init empty_document)) \<and>
   snd (handleFavorite_begin (lit ''a1'') (lit ''T'') (lit ''u'') (script_init empty_document)) = None \<and>
   loginModal (fst (handleFavorite_begin (lit ''a1'') (lit ''T'') (lit ''u'')
      (script_init empty_document))) = Shown \<and>
   snd (handleFavorite_begin (lit ''a1'') (lit ''T'') (lit ''u'')
      (empty_document\<lparr>jwtToken := Some (lit ''abc'')\<rparr>)) \<noteq> None \<and>
   truthy (jwtToken (empty_document\<lparr>jwtToken := Some (lit ''abc'')\<rparr>))"
proof -
  let ?s = "script_init empty_document"
  let ?held = "empty_document\<lparr>jwtToken := Some (lit ''abc'')\<rparr>"
  have no_token: "\<not> truthy (jwtToken ?s)"
    by (simp add: script_init_def empty_document_def getItem_def truthy_def)
  then have "handleFavorite_begin (lit ''a1'') (lit ''T'') (lit ''u'') ?s =
      (?s\<lparr>loginModal := Shown\<rparr>, None)"
    using favorite_without_token_prompts_login [of ?s "lit ''a1''" "lit ''T''" "lit ''u''"]
    by blast
  then have prompt: "snd (handleFavorite_begin (lit ''a1'') (lit ''T'') (lit ''u'') ?s) = None"
      "loginModal (fst (handleFavorite_begin (lit ''a1'') (lit ''T'') (lit ''u'') ?s)) = Shown"
    by simp_all
  have issued: "snd (handleFavorite_begin (lit ''a1'') (lit ''T'') (lit ''u'') ?held) \<noteq> None"
    by (simp add: handleFavorite_begin_def truthy_def lit_def)
  then have "truthy (jwtToken ?held)"
    using favorite_without_token_prompts_login [of ?held "lit ''a1''" "lit ''T''" "lit ''u''"]
    by blast
  with no_token prompt issued show ?thesis
    by simp
qed




section \<open>The session\<close>

text \<open>
  C1. When the login response has a non-success status, \<open>loginUser\<close> fails with the
  error whose message carries the status code, \<open>login\<close> catches it, and neither the
  script's token nor the storage changes. When the response is successful and its
  body has no token (or an empty one), \<open>loginUser\<close> returns the body, \<open>login\<close> only
  alerts the "login failed" message, nothing is thrown or logged, and neither the
  token nor the storage changes. And whenever a login changes the token or the
  storage, the response was successful and its body contained a token, the one
  now held.
\<close>

theorem login_outcomes:
  "(\<not> ok st \<longrightarrow>
      loginUser_settled (Resolved st b) =
        Inl (Error (lit ''HTTP error! Status: '' @ decimal st)) \<and>
      login_resume (Resolved st b) s =
        login_catch (Error (lit ''HTTP error! Status: '' @ decimal st)) s \<and>
      jwtToken (login_resume (Resolved st b) s) = jwtToken s \<and>
      localStorage (login_resume (Resolved st b) s) = localStorage s) \<and>
   (ok st \<and> \<not> truthy (token d) \<longrightarrow>
      loginUser_settled (Resolved st (Some d)) = Inr d \<and>
      login_resume (Resolved st (Some d)) s =
        alert (Some (lit ''Login failed. Please try again.'')) s \<and>
      jwtToken (login_resume (Resolved st (Some d)) s) = jwtToken s \<and>
      localStorage (login_resume (Resolved st (Some d)) s) = localStorage s \<and>
      console (login_resume (Resolved st (Some d)) s) = console s) \<and>
   (jwtToken (login_resume res s) \<noteq> jwtToken s \<or>
    localStorage (login_resume res s) \<noteq> localStorage s \<longrightarrow>
      (\<exists>st' d'. res = Resolved st' (Some d') \<and> ok st' \<and> truthy (token d') \<and>
         jwtToken (login_resume res s) = token d'))"
proof -
  have "loginUser_settled (Resolved st b) =
      Inl (Error (lit ''HTTP error! Status: '' @ decimal st))" if "\<not> ok st"
    using that by (simp add: loginUser_settled_def)
  moreover have "loginUser_settled (Resolved st (Some d)) = Inr d" if "ok st"
    using that by (simp add: loginUser_settled_def response_json_def)
  ultimately show ?thesis
    using login_resume_stores_only_received_token [of res s]
    by (auto simp: login_resume_not_ok login_resume_no_token)
qed

theorem login_outcomes_witness:
  "\<not> ok 401 \<and>
   loginUser_settled (Resolved 401 None) = Inl (Error (lit ''HTTP error! Status: 401'')) \<and>
   alerts (login_resume (Resolved 401 None) (script_init empty_document)) =
     [Some (lit ''An error occurred. Please try again.'')] \<and>
   jwtToken (login_resume (Resolved 401 None) (script_init empty_document)) = None \<and>
   ok 200 \<and> \<not> truthy (token \<lparr>token = None\<rparr>) \<and>
   alerts (login_resume (login_response 200 None) (script_init empty_document)) =
     [Some (lit ''Login failed. Please try again.'')] \<and>
   jwtToken (login_resume (login_response 200 None) (script_init empty_document)) = None \<and>
   jwtToken (login_resume (login_response 200 (Some (lit ''abc''))) (script_init empty_document)) \<noteq>
     jwtToken (script_init empty_document) \<and>
   (\<exists>st d. login_response 200 (Some (lit ''abc'')) = Resolved st (Some d) \<and> ok st \<and>
      truthy (token d))"
proof -
  let ?s = "script_init empty_document"
  have s: "jwtToken ?s = None" "alerts ?s = []"
    by (simp_all add: script_init_def empty_document_def getItem_def truthy_def)
  have h1: "\<not> ok 401" and h2: "ok 200 \<and> \<not> truthy (token \<lparr>token = None\<rparr>)"
    by (simp_all add: ok_def truthy_def)
  have digits: "lit ''HTTP error! Status: '' @ decimal 401 = lit ''HTTP error! Status: 401''"
    by (simp add: decimal.simps lit_def)
  note inst401 = login_outcomes [of 401 None ?s]
  have a: "loginUser_settled (Resolved 401 None) = Inl (Error (lit ''HTTP error! Status: 401''))"
    using inst401 h1 digits by simp
  have b: "alerts (login_resume (Resolved 401 None) ?s) =
      [Some (lit ''An error occurred. Please try again.'')]"
    "jwtToken (login_resume (Resolved 401 None) ?s) = None"
    using inst401 h1 s by (simp_all add: login_catch_def)
  note inst200 = login_outcomes [of 200 _ ?s "\<lparr>token = None\<rparr>"]
  have c: "alerts (login_resume (login_response 200 None) ?s) =
      [Some (lit ''Login failed. Please try again.'')]"
    "jwtToken (login_resume (login_response 200 None) ?s) = None"
    using inst200 h2 s by (simp_all add: login_response_def)
  have changed: "jwtToken (login_resume (login_response 200 (Some (lit ''abc''))) ?s) \<noteq> jwtToken ?s"
    using s
    by (simp add: login_resume_def loginUser_settled_def login_response_def response_json_def
        ok_def truthy_def lit_def Let_def)
  then have d: "\<exists>st d. login_response 200 (Some (lit ''abc'')) = Resolved st (Some d) \<and> ok st \<and>
      truthy (token d)"
    using login_outcomes [of _ _ ?s _ "login_response 200 (Some (lit ''abc''))"] by blast
  from h1 h2 a b c changed d show ?thesis
    by simp
qed

text \<open>
  C8. After a successful login with a token, the script holds that token, the
  storage holds it under \<open>jwtToken\<close>, and the script of a reloaded page, which reads
  the storage when it starts, holds that same token. More generally, in every
  state reached from a page load a reload yields the token the script held.
\<close>

theorem login_token_survives_reload:
  "(ok st \<and> truthy (token d) \<longrightarrow>
      jwtToken (login_resume (Resolved st (Some d)) s) = token d \<and>
      getItem (lit ''jwtToken'') (login_resume (Resolved st (Some d)) s) = token d \<and>
      jwtToken (reload page (login_resume (Resolved st (Some d)) s)) = token d) \<and>
   jwtToken (script_init s) =
     (if truthy (getItem (lit ''jwtToken'') s) then getItem (lit ''jwtToken'') s else None) \<and>
   jwtToken (reload page (run evs (script_init s))) = jwtToken (run evs (script_init s))"
proof -
  have "jwtToken (login_resume (Resolved st (Some d)) s) = token d \<and>
      getItem (lit ''jwtToken'') (login_resume (Resolved st (Some d)) s) = token d \<and>
      jwtToken (reload page (login_resume (Resolved st (Some d)) s)) = token d"
    if "ok st" "truthy (token d)"
  proof -
    from that obtain t where t: "token d = Some t" "t \<noteq> []"
      by (auto simp: truthy_def split: option.splits)
    let ?s' = "login_resume (Resolved st (Some d)) s"
    have held: "jwtToken ?s' = Some t"
      using that t by (simp add: login_resume_def loginUser_settled_def response_json_def Let_def)
    have stored: "localStorage ?s' (lit ''jwtToken'') = Some t"
      using that t
      by (simp add: login_resume_def loginUser_settled_def response_json_def Let_def ToString_def)
    have "jwtToken (reload page ?s') = Some t"
      using stored t by (simp add: reload_def script_init_def getItem_def truthy_def Let_def)
    with held stored t show ?thesis
      by (simp add: getItem_def)
  qed
  moreover have "jwtToken (script_init s) =
     (if truthy (getItem (lit ''jwtToken'') s) then getItem (lit ''jwtToken'') s else None)"
    by (simp add: script_init_def Let_def)
  moreover have "jwtToken (reload page (run evs (script_init s))) = jwtToken (run evs (script_init s))"
    by (simp add: jwtToken_reload session_synced_run session_synced_script_init)
  ultimately show ?thesis
    by blast
qed

theorem login_token_survives_reload_witness:
  "ok 200 \<and> truthy (token \<lparr>token = Some (lit ''abc'')\<rparr>) \<and>
   jwtToken (reload empty_document
     (login_resume (Resolved 200 (Some \<lparr>token = Some (lit ''abc'')\<rparr>)) (script_init empty_document))) =
     Some (lit ''abc'') \<and>
   getItem (lit ''jwtToken'')
     (login_resume (Resolved 200 (Some \<lparr>token = Some (lit ''abc'')\<rparr>)) (script_init empty_document)) =
     Some (lit ''abc'')"
proof -
  have h: "ok 200 \<and> truthy (token \<lparr>token = Some (lit ''abc'')\<rparr>)"
    by (simp add: ok_def truthy_def lit_def)
  then show ?thesis
    using login_token_survives_reload
      [of 200 "\<lparr>token = Some (lit ''abc'')\<rparr>" "script_init empty_document" empty_document]
    by simp
qed

text \<open>
  C9. The requests that add, list and remove favorites, as built by the API client
  and as issued by the handlers, all carry the headers of \<open>getAuthHeaders\<close>: the
  content type and an \<open>Authorization\<close> header, which is
  \<open>Bearer\<close>, a space and the token when the session has one, and empty otherwise.
  The token is read from the storage; the script's own token agrees with it in
  every state reached from a page load, so the header is equally the one built
  from the token the script holds.
\<close>

theorem authenticated_requests_attach_bearer_header:
  "headers (addToFavorites article s) = getAuthHeaders s \<and>
   headers (fetchFavorites s) = getAuthHeaders s \<and>
   headers (removeFromFavoritesApi articleId s) = getAuthHeaders s \<and>
   (truthy (jwtToken s) \<longrightarrow>
      map_option headers (snd (handleFavorite_begin articleId title url s)) =
        Some (getAuthHeaders s)) \<and>
   map_option headers (snd (loadFavorites_begin s)) = Some (getAuthHeaders s) \<and>
   map_option headers (snd (removeFromFavorites_begin articleId s)) = Some (getAuthHeaders s) \<and>
   getAuthHeaders s =
     [(lit ''Content-Type'', lit ''application/json''),
      (lit ''Authorization'',
       case getItem (lit ''jwtToken'') s of
         None \<Rightarrow> []
       | Some t \<Rightarrow> if t = [] then [] else lit ''Bearer '' @ t)] \<and>
   (session_synced s \<longrightarrow>
      getAuthHeaders s =
        [(lit ''Content-Type'', lit ''application/json''),
         (lit ''Authorization'',
          case jwtToken s of None \<Rightarrow> [] | Some t \<Rightarrow> lit ''Bearer '' @ t)]) \<and>
   session_synced (run evs (script_init doc))"
proof -
  have stored: "getAuthHeaders s =
     [(lit ''Content-Type'', lit ''application/json''),
      (lit ''Authorization'',
       case getItem (lit ''jwtToken'') s of
         None \<Rightarrow> []
       | Some t \<Rightarrow> if t = [] then [] else lit ''Bearer '' @ t)]"
    by (simp add: getAuthHeaders_def truthy_def ToString_def Let_def split: option.split)
  have "(case getItem (lit ''jwtToken'') s of
           None \<Rightarrow> []
         | Some t \<Rightarrow> if t = [] then [] else lit ''Bearer '' @ t) =
        (case jwtToken s of None \<Rightarrow> [] | Some t \<Rightarrow> lit ''Bearer '' @ t)"
    if "session_synced s"
    using that by (auto simp: session_synced_def truthy_def Let_def split: option.splits)
  with stored have held: "session_synced s \<longrightarrow>
      getAuthHeaders s =
        [(lit ''Content-Type'', lit ''application/json''),
         (lit ''Authorization'',
          case jwtToken s of None \<Rightarrow> [] | Some t \<Rightarrow> lit ''Bearer '' @ t)]"
    by simp
  have "session_synced (run evs (script_init doc))"
    by (simp add: session_synced_run session_synced_script_init)
  with stored held show ?thesis
    by (simp add: addToFavorites_def fetchFavorites_def removeFromFavoritesApi_def
        handleFavorite_begin_def loadFavorites_begin_def removeFromFavorites_begin_def)
qed

theorem authenticated_requests_attach_bearer_header_witness:
  "session_synced (run [Call_login, Settle_login (login_response 200 (Some (lit ''abc'')))]
                     (script_init empty_document)) \<and>
   truthy (jwtToken (run [Call_login, Settle_login (login_response 200 (Some (lit ''abc'')))]
                       (script_init empty_document))) \<and>
   map_option headers (snd (handleFavorite_begin (lit ''a1'') (lit ''T'') (lit ''u'')
     (run [Call_login, Settle_login (login_response 200 (Some (lit ''abc'')))]
        (script_init empty_document)))) =
     Some [(lit ''Content-Type'', lit ''application/json''),
           (lit ''Authorization'', lit ''Bearer abc'')] \<and>
   headers (fetchFavorites
     (run [Call_login, Settle_login (login_response 200 (Some (lit ''abc'')))]
        (script_init empty_document))) =
     [(lit ''Content-Type'', lit ''application/json''), (lit ''Authorization'', lit ''Bearer abc'')] \<and>
   headers (fetchFavorites (script_init empty_document)) =
     [(lit ''Content-Type'', lit ''application/json''), (lit ''Authorization'', [])]"
proof -
  let ?evs = "[Call_login, Settle_login (login_response 200 (Some (lit ''abc'')))]"
  let ?s = "run ?evs (script_init empty_document)"
  note inst = authenticated_requests_attach_bearer_header
    [where s = "?s" and articleId = "lit ''a1''" and title = "lit ''T''" and url = "lit ''u''"]
  have synced: "session_synced ?s"
    using authenticated_requests_attach_bearer_header [where evs = "?evs" and doc = empty_document]
    by blast
  have tok: "jwtToken ?s = Some (lit ''abc'')"
    by (simp add: login_begin_def login_resume_def loginUser_settled_def login_response_def
        response_json_def ok_def truthy_def lit_def Let_def)
  then have held: "truthy (jwtToken ?s)"
    by (simp add: truthy_def lit_def)
  have "getAuthHeaders ?s =
      [(lit ''Content-Type'', lit ''application/json''),
       (lit ''Authorization'', case jwtToken ?s of None \<Rightarrow> [] | Some t \<Rightarrow> lit ''Bearer '' @ t)]"
    using inst synced by blast
  then have bearer: "getAuthHeaders ?s =
      [(lit ''Content-Type'', lit ''application/json''), (lit ''Authorization'', lit ''Bearer abc'')]"
    using tok by (simp add: lit_def)
  have "map_option headers (snd (handleFavorite_begin (lit ''a1'') (lit ''T'') (lit ''u'') ?s)) =
      Some (getAuthHeaders ?s)"
    using inst held by blast
  moreover have "headers (fetchFavorites ?s) = getAuthHeaders ?s"
    using inst by blast
  moreover have "headers (fetchFavorites (script_init empty_document)) =
      [(lit ''Content-Type'', lit ''application/json''), (lit ''Authorization'', [])]"
    using authenticated_requests_attach_bearer_header [where s = "script_init empty_document"]
    by (simp add: script_init_def empty_document_def getItem_def)
  ultimately show ?thesis
    using synced held bearer by simp
qed

end
